theory Spec2Isabelle
  imports Main
begin

section \<open>JavaScript values, requests and exceptions\<close>

text \<open>
  The members of the two error enumerations of \<^verbatim>\<open>@core/errors\<close> that the client node
  uses. The enumerations are declared outside the files at hand, so their members are
  kept symbolic, one constructor per member the handlers name.
\<close>

datatype error_type =
    ClientNodeErrorType_UNKNOWN_ERROR
  | ClientNodeErrorType_VERIFICATION_FAILED
  | OperatorErrorType_UNKNOWN_ERROR

text \<open>
  The values that flow through the handlers: parsed JSON, \<^verbatim>\<open>undefined\<close>, and the
  enumeration members above. An object is the list of its fields in the order of the
  object literal that built it.
\<close>

datatype jsval =
    JUndefined
  | JNull
  | JBool bool
  | JNum int
  | JStr string
  | JArr "jsval list"
  | JObj "(string \<times> jsval) list"
  | JErrorType error_type

text \<open>The truthiness test behind \<^verbatim>\<open>if (input)\<close> and \<^verbatim>\<open>!message.response\<close>.\<close>

fun truthy :: "jsval \<Rightarrow> bool" where
  "truthy JUndefined = False"
| "truthy JNull = False"
| "truthy (JBool b) = b"
| "truthy (JNum n) = (n \<noteq> 0)"
| "truthy (JStr s) = (s \<noteq> [])"
| "truthy (JArr _) = True"
| "truthy (JObj _) = True"
| "truthy (JErrorType _) = True"

datatype exn = TypeError | SyntaxError | ERR_HTTP_HEADERS_SENT | Failure string

text \<open>
  Property access \<^verbatim>\<open>v.k\<close>: a TypeError on \<^verbatim>\<open>undefined\<close> and \<^verbatim>\<open>null\<close>, the field's value on
  an object that has it, \<^verbatim>\<open>undefined\<close> otherwise.
\<close>

fun get_prop :: "jsval \<Rightarrow> string \<Rightarrow> exn + jsval" where
  "get_prop JUndefined k = Inl TypeError"
| "get_prop JNull k = Inl TypeError"
| "get_prop (JObj kvs) k = Inr (case map_of kvs k of None \<Rightarrow> JUndefined | Some v \<Rightarrow> v)"
| "get_prop _ k = Inr JUndefined"

type_synonym url = string

record request =
  query :: "string \<rightharpoonup> string"
  headers :: "string \<rightharpoonup> string"
  body :: jsval

text \<open>\<^verbatim>\<open>req.header(name)\<close>: the header's value, or \<^verbatim>\<open>undefined\<close>.\<close>

definition header :: "request \<Rightarrow> string \<Rightarrow> jsval" where
  "header req name = (case headers req name of None \<Rightarrow> JUndefined | Some v \<Rightarrow> JStr v)"

section \<open>Endpoints and the effects of a handler\<close>

datatype endpoint =
    jsonProxyEndpoints_read
  | jsonProxyEndpoints_write
  | jsonProxyEndpoints_verify3PC
  | jsonProxyEndpoints_newId
  | jsonProxyEndpoints_delete
  | redirectProxyEndpoints_read
  | redirectProxyEndpoints_write
  | redirectProxyEndpoints_delete
  | jsonProxyEndpoints_verifyRead
  | jsonProxyEndpoints_signPrefs
  | jsonProxyEndpoints_createSeed

text \<open>
  What a handler does to the outside, in the order it does it: the calls on the response
  object, on \<^verbatim>\<open>next\<close>, on the logger, and on the operator client and the request builders
  (\<open>Invoke\<close>, with the name of the method and the arguments other than \<^verbatim>\<open>req\<close>).
\<close>

datatype effect =
    SendStatus nat
  | Status nat
  | Send string
  | Json jsval
  | Next
  | NextError jsval
  | LoggerError endpoint
  | Invoke string "jsval list"

text \<open>
  The functions the handlers call and that live outside the files at hand: the platform's
  \<^verbatim>\<open>new URL\<close> and \<^verbatim>\<open>JSON.parse\<close>, the helpers \<^verbatim>\<open>getPayload\<close> and \<^verbatim>\<open>fromDataToObject\<close>, the
  operator client and the four request builders. Each is a parameter; \<open>Inl\<close> is a thrown
  exception. \<open>headersSentThrows\<close> says whether the response object throws when asked to
  send after a response has gone out (the web framework does; the handlers are verified
  for both answers).
\<close>

record collaborators =
  new_URL :: "string \<Rightarrow> exn + url"
  JSON_parse :: "jsval \<Rightarrow> exn + jsval"
  getPayload :: "request \<Rightarrow> exn + jsval"
  fromDataToObject :: "jsval \<Rightarrow> exn + jsval"
  client_getReadRestUrl :: "request \<Rightarrow> exn + url"
  client_getReadRedirectUrl :: "request \<Rightarrow> url option \<Rightarrow> exn + url"
  client_getDeleteRedirectUrl :: "request \<Rightarrow> url option \<Rightarrow> exn + url"
  client_verifyReadResponse :: "jsval \<Rightarrow> exn + bool"
  client_buildPreferences :: "jsval \<Rightarrow> jsval \<Rightarrow> exn + jsval"
  client_buildSeed :: "jsval \<Rightarrow> jsval \<Rightarrow> exn + jsval"
  postIdsPrefs_buildRestRequest :: "jsval \<Rightarrow> jsval \<Rightarrow> exn + jsval"
  postIdsPrefs_getRestUrl :: "exn + url"
  postIdsPrefs_buildRedirectRequest :: "jsval \<Rightarrow> jsval \<Rightarrow> exn + jsval"
  postIdsPrefs_getRedirectUrl :: "jsval \<Rightarrow> exn + url"
  get3PC_getRestUrl :: "exn + url"
  getNewId_buildRestRequest :: "jsval \<Rightarrow> exn + jsval"
  getNewId_getRestUrl :: "jsval \<Rightarrow> exn + url"
  deleteIdsPrefs_buildRestRequest :: "jsval \<Rightarrow> exn + jsval"
  deleteIdsPrefs_getRestUrl :: "jsval \<Rightarrow> exn + url"
  headersSentThrows :: bool

section \<open>Handler bodies as programs over the effect log\<close>

text \<open>
  A program takes the effects so far and returns its result (or the exception it
  throws) with the effects extended.
\<close>

type_synonym 'a prog = "effect list \<Rightarrow> (exn + 'a) \<times> effect list"

definition ret :: "'a \<Rightarrow> 'a prog" where
  "ret x tr = (Inr x, tr)"

definition throw :: "exn \<Rightarrow> 'a prog" where
  "throw e tr = (Inl e, tr)"

definition lift :: "exn + 'a \<Rightarrow> 'a prog" where
  "lift r tr = (r, tr)"

definition andThen :: "'a prog \<Rightarrow> ('a \<Rightarrow> 'b prog) \<Rightarrow> 'b prog" where
  "andThen m f tr = (case m tr of (Inl e, tr') \<Rightarrow> (Inl e, tr') | (Inr x, tr') \<Rightarrow> f x tr')"

fun steps :: "unit prog list \<Rightarrow> unit prog" where
  "steps [] = ret ()"
| "steps (m # ms) = andThen m (\<lambda>_. steps ms)"

text \<open>\<^verbatim>\<open>try { m } catch (e) { h e }\<close>\<close>

definition try_catch :: "'a prog \<Rightarrow> (exn \<Rightarrow> 'a prog) \<Rightarrow> 'a prog" where
  "try_catch m h tr = (case m tr of (Inl e, tr') \<Rightarrow> h e tr' | (Inr x, tr') \<Rightarrow> (Inr x, tr'))"

definition emit :: "effect \<Rightarrow> unit prog" where
  "emit e tr = (Inr (), tr @ [e])"

definition invoke :: "string \<Rightarrow> jsval list \<Rightarrow> exn + 'a \<Rightarrow> 'a prog" where
  "invoke name args result = andThen (emit (Invoke name args)) (\<lambda>_. lift result)"

fun is_response :: "effect \<Rightarrow> bool" where
  "is_response (SendStatus _) = True"
| "is_response (Send _) = True"
| "is_response (Json _) = True"
| "is_response _ = False"

definition response_sent :: "effect list \<Rightarrow> bool" where
  "response_sent tr = list_ex is_response tr"

text \<open>
  A call that sends a response is logged; it throws when a response has gone out already
  and the response object is one that throws then.
\<close>

definition respond :: "collaborators \<Rightarrow> effect \<Rightarrow> unit prog" where
  "respond c e tr =
     (if headersSentThrows c \<and> response_sent tr then (Inl ERR_HTTP_HEADERS_SENT, tr @ [e])
      else (Inr (), tr @ [e]))"

definition res_sendStatus :: "collaborators \<Rightarrow> nat \<Rightarrow> unit prog" where
  "res_sendStatus c n = respond c (SendStatus n)"

definition res_send :: "collaborators \<Rightarrow> string \<Rightarrow> unit prog" where
  "res_send c s = respond c (Send s)"

definition res_json :: "collaborators \<Rightarrow> jsval \<Rightarrow> unit prog" where
  "res_json c v = respond c (Json v)"

definition res_status :: "nat \<Rightarrow> unit prog" where
  "res_status n = emit (Status n)"

definition next_ok :: "unit prog" where
  "next_ok = emit Next"

definition next_error :: "jsval \<Rightarrow> unit prog" where
  "next_error error = emit (NextError error)"

definition logger_Error :: "endpoint \<Rightarrow> unit prog" where
  "logger_Error ep = emit (LoggerError ep)"

section \<open>The HTTP response a log stands for\<close>

datatype body = StatusText nat | Text string | JsonBody jsval

text \<open>
  The response that goes out is the first one sent: \<^verbatim>\<open>sendStatus(n)\<close> sends status \<open>n\<close>
  with the status text as body, \<^verbatim>\<open>send\<close> and \<^verbatim>\<open>json\<close> send their argument under the
  status set last (200 when none was set). \<open>JsonBody v\<close> carries the value handed to
  \<^verbatim>\<open>res.json\<close>.
\<close>

fun response_from :: "nat \<Rightarrow> effect list \<Rightarrow> (nat \<times> body) option" where
  "response_from st [] = None"
| "response_from st (e # es) =
     (case e of
        Status n \<Rightarrow> response_from n es
      | SendStatus n \<Rightarrow> Some (n, StatusText n)
      | Send s \<Rightarrow> Some (st, Text s)
      | Json v \<Rightarrow> Some (st, JsonBody v)
      | _ \<Rightarrow> response_from st es)"

definition response_of :: "effect list \<Rightarrow> (nat \<times> body) option" where
  "response_of tr = response_from 200 tr"




section \<open>The helpers at the head of the file\<close>

text \<open>
  Modelled from the spec: the names of the two query parameters, \<^verbatim>\<open>proxyUriParams\<close> of
  \<^verbatim>\<open>@core/endpoints\<close>, which is not among the files at hand. Section 6 of the
  specification names them \<^verbatim>\<open>returnUrl\<close> and \<^verbatim>\<open>message\<close>.
\<close>

definition proxyUriParams_returnUrl :: string where
  "proxyUriParams_returnUrl = ''returnUrl''"

definition proxyUriParams_message :: string where
  "proxyUriParams_message = ''message''"

text \<open>
  \<^verbatim>\<open>getMandatoryQueryStringParam\<close>: an absent parameter is answered with
  \<^verbatim>\<open>res.sendStatus(400)\<close> and \<^verbatim>\<open>undefined\<close> is returned to the caller, which goes on.
\<close>

definition getMandatoryQueryStringParam ::
  "collaborators \<Rightarrow> request \<Rightarrow> string \<Rightarrow> string option prog" where
  "getMandatoryQueryStringParam c req paramName =
     (case query req paramName of
        None \<Rightarrow> andThen (res_sendStatus c 400) (\<lambda>_. ret None)
      | Some stringValue \<Rightarrow> ret (Some stringValue))"

text \<open>
  \<^verbatim>\<open>getReturnUrl\<close>: \<^verbatim>\<open>redirectStr ? new URL(redirectStr) : undefined\<close>; the empty string is
  falsy, and \<^verbatim>\<open>new URL\<close> throws on a string that is not an absolute URL.
\<close>

definition getReturnUrl :: "collaborators \<Rightarrow> request \<Rightarrow> url option prog" where
  "getReturnUrl c req =
     andThen (getMandatoryQueryStringParam c req proxyUriParams_returnUrl) (\<lambda>redirectStr.
       case redirectStr of
         None \<Rightarrow> ret None
       | Some s \<Rightarrow> if s \<noteq> [] then andThen (lift (new_URL c s)) (\<lambda>u. ret (Some u)) else ret None)"

text \<open>\<^verbatim>\<open>getMessageObject\<close>: \<^verbatim>\<open>requestStr ? JSON.parse(requestStr) : undefined\<close>.\<close>

definition getMessageObject :: "collaborators \<Rightarrow> request \<Rightarrow> jsval prog" where
  "getMessageObject c req =
     andThen (getMandatoryQueryStringParam c req proxyUriParams_message) (\<lambda>requestStr.
       case requestStr of
         None \<Rightarrow> ret JUndefined
       | Some s \<Rightarrow> if s \<noteq> [] then lift (JSON_parse c (JStr s)) else ret JUndefined)"

section \<open>The request handlers of ClientNode\<close>

text \<open>The object literal \<^verbatim>\<open>{ type: ClientNodeErrorType.UNKNOWN_ERROR, details: '' }\<close>.\<close>

definition unknown_error :: jsval where
  "unknown_error =
     JObj [(''type'', JErrorType ClientNodeErrorType_UNKNOWN_ERROR), (''details'', JStr [])]"

definition verification_failed :: jsval where
  "verification_failed =
     JObj [(''type'', JErrorType ClientNodeErrorType_VERIFICATION_FAILED), (''details'', JStr [])]"

text \<open>The three lines \<^verbatim>\<open>res.status(400); res.json(error); next(error);\<close> every error branch ends with.\<close>

definition respond_error :: "collaborators \<Rightarrow> jsval \<Rightarrow> unit prog" where
  "respond_error c error = steps [res_status 400, res_json c error, next_error error]"

text \<open>The argument a URL-or-undefined is logged as in an \<open>Invoke\<close>.\<close>

fun url_arg :: "url option \<Rightarrow> jsval" where
  "url_arg None = JUndefined"
| "url_arg (Some u) = JStr u"

text \<open>\<^verbatim>\<open>returnUrl.toString()\<close>: a TypeError on \<^verbatim>\<open>undefined\<close>.\<close>

fun url_toString :: "url option \<Rightarrow> exn + string" where
  "url_toString None = Inl TypeError"
| "url_toString (Some u) = Inr u"

definition restGetIdsAndPrefs :: "collaborators \<Rightarrow> request \<Rightarrow> unit prog" where
  "restGetIdsAndPrefs c req =
     try_catch
       (andThen (invoke ''client.getReadRestUrl'' [] (client_getReadRestUrl c req)) (\<lambda>url.
          steps [res_send c url, next_ok]))
       (\<lambda>e. respond_error c unknown_error)"

definition restWriteIdsAndPrefs :: "collaborators \<Rightarrow> request \<Rightarrow> unit prog" where
  "restWriteIdsAndPrefs c req =
     try_catch
       (andThen (lift (getPayload c req)) (\<lambda>unsignedRequest.
        andThen (invoke ''postIdsPrefsRequestBuilder.buildRestRequest''
                   [JObj [(''origin'', header req ''origin'')], unsignedRequest]
                   (postIdsPrefs_buildRestRequest c
                      (JObj [(''origin'', header req ''origin'')]) unsignedRequest)) (\<lambda>signedPayload.
        andThen (invoke ''postIdsPrefsRequestBuilder.getRestUrl'' [] (postIdsPrefs_getRestUrl c)) (\<lambda>url.
          steps [res_json c (JObj [(''payload'', signedPayload), (''url'', JStr url)]), next_ok]))))
       (\<lambda>e. steps [logger_Error jsonProxyEndpoints_write, respond_error c unknown_error])"

definition verify3PC :: "collaborators \<Rightarrow> request \<Rightarrow> unit prog" where
  "verify3PC c req =
     try_catch
       (andThen (invoke ''get3PCRequestBuilder.getRestUrl'' [] (get3PC_getRestUrl c)) (\<lambda>url.
          steps [res_send c url, next_ok]))
       (\<lambda>e. steps [logger_Error jsonProxyEndpoints_verify3PC, respond_error c unknown_error])"

definition getNewId :: "collaborators \<Rightarrow> request \<Rightarrow> unit prog" where
  "getNewId c req =
     try_catch
       (andThen (invoke ''getNewIdRequestBuilder.buildRestRequest''
                   [JObj [(''origin'', header req ''origin'')]]
                   (getNewId_buildRestRequest c (JObj [(''origin'', header req ''origin'')])))
          (\<lambda>getNewIdRequestJson.
        andThen (invoke ''getNewIdRequestBuilder.getRestUrl'' [getNewIdRequestJson]
                   (getNewId_getRestUrl c getNewIdRequestJson)) (\<lambda>url.
          steps [res_send c url, next_ok])))
       (\<lambda>e. steps [logger_Error jsonProxyEndpoints_newId, respond_error c unknown_error])"

definition restDeleteIdsAndPrefs :: "collaborators \<Rightarrow> request \<Rightarrow> unit prog" where
  "restDeleteIdsAndPrefs c req =
     try_catch
       (andThen (invoke ''deleteIdsPrefsRequestBuilder.buildRestRequest''
                   [JObj [(''origin'', header req ''origin'')]]
                   (deleteIdsPrefs_buildRestRequest c (JObj [(''origin'', header req ''origin'')])))
          (\<lambda>request.
        andThen (invoke ''deleteIdsPrefsRequestBuilder.getRestUrl'' [request]
                   (deleteIdsPrefs_getRestUrl c request)) (\<lambda>url.
          steps [res_send c url, next_ok])))
       (\<lambda>e. steps [logger_Error jsonProxyEndpoints_delete, respond_error c unknown_error])"

text \<open>
  The three redirect handlers read their query parameters before the \<^verbatim>\<open>try\<close> block, and
  go on after \<^verbatim>\<open>getReturnUrl\<close> whatever it returned.
\<close>

definition redirectReadIdsAndPrefs :: "collaborators \<Rightarrow> request \<Rightarrow> unit prog" where
  "redirectReadIdsAndPrefs c req =
     andThen (getReturnUrl c req) (\<lambda>returnUrl.
       try_catch
         (andThen (invoke ''client.getReadRedirectUrl'' [url_arg returnUrl]
                     (client_getReadRedirectUrl c req returnUrl)) (\<lambda>url.
            steps [res_send c url, next_ok]))
         (\<lambda>e. steps [logger_Error redirectProxyEndpoints_read, respond_error c unknown_error]))"

definition redirectWriteIdsAndPrefs :: "collaborators \<Rightarrow> request \<Rightarrow> unit prog" where
  "redirectWriteIdsAndPrefs c req =
     andThen (getReturnUrl c req) (\<lambda>returnUrl.
     andThen (getMessageObject c req) (\<lambda>input.
       if truthy input then
         try_catch
           (andThen (lift (url_toString returnUrl)) (\<lambda>returnUrlStr.
            andThen (invoke ''postIdsPrefsRequestBuilder.buildRedirectRequest''
                       [JObj [(''returnUrl'', JStr returnUrlStr), (''referer'', header req ''referer'')],
                        input]
                       (postIdsPrefs_buildRedirectRequest c
                          (JObj [(''returnUrl'', JStr returnUrlStr),
                                 (''referer'', header req ''referer'')])
                          input)) (\<lambda>postIdsPrefsRequestJson.
            andThen (invoke ''postIdsPrefsRequestBuilder.getRedirectUrl'' [postIdsPrefsRequestJson]
                       (postIdsPrefs_getRedirectUrl c postIdsPrefsRequestJson)) (\<lambda>url.
              steps [res_send c url, next_ok]))))
           (\<lambda>e. steps [logger_Error redirectProxyEndpoints_write, respond_error c unknown_error])
       else ret ()))"

definition redirectDeleteIdsAndPrefs :: "collaborators \<Rightarrow> request \<Rightarrow> unit prog" where
  "redirectDeleteIdsAndPrefs c req =
     andThen (getReturnUrl c req) (\<lambda>returnUrl.
       try_catch
         (andThen (invoke ''client.getDeleteRedirectUrl'' [url_arg returnUrl]
                     (client_getDeleteRedirectUrl c req returnUrl)) (\<lambda>url.
            steps [res_send c url, next_ok]))
         (\<lambda>e. steps [logger_Error redirectProxyEndpoints_delete, respond_error c unknown_error]))"

text \<open>
  \<^verbatim>\<open>verifyOperatorReadResponse\<close>: the body is parsed and the envelope inspected before the
  \<^verbatim>\<open>try\<close> block; the error branch reads \<^verbatim>\<open>message.error.message\<close> there.
\<close>

definition verifyOperatorReadResponse :: "collaborators \<Rightarrow> request \<Rightarrow> unit prog" where
  "verifyOperatorReadResponse c req =
     andThen (lift (fromDataToObject c (body req))) (\<lambda>message.
     andThen (lift (get_prop message ''response'')) (\<lambda>response.
       if \<not> truthy response then
         andThen (lift (get_prop message ''error'')) (\<lambda>message_error.
         andThen (logger_Error jsonProxyEndpoints_verifyRead) (\<lambda>_.
         andThen (lift (get_prop message_error ''message'')) (\<lambda>details.
           respond_error c
             (JObj [(''type'', JErrorType OperatorErrorType_UNKNOWN_ERROR), (''details'', details)]))))
       else
         try_catch
           (andThen (invoke ''client.verifyReadResponse'' [response]
                       (client_verifyReadResponse c response)) (\<lambda>verification.
              if \<not> verification then
                steps [logger_Error jsonProxyEndpoints_verifyRead, respond_error c verification_failed]
              else steps [res_json c response, next_ok]))
           (\<lambda>e. steps [logger_Error jsonProxyEndpoints_verifyRead, respond_error c unknown_error])))"

definition signPreferences :: "collaborators \<Rightarrow> request \<Rightarrow> unit prog" where
  "signPreferences c req =
     try_catch
       (andThen (lift (getPayload c req)) (\<lambda>payload.
        andThen (lift (get_prop payload ''identifiers'')) (\<lambda>identifiers.
        andThen (lift (get_prop payload ''unsignedPreferences'')) (\<lambda>unsignedPreferences.
        andThen (lift (get_prop unsignedPreferences ''data'')) (\<lambda>data.
        andThen (invoke ''client.buildPreferences'' [identifiers, data]
                   (client_buildPreferences c identifiers data)) (\<lambda>preferences.
          steps [res_json c preferences, next_ok]))))))
       (\<lambda>e. steps [logger_Error jsonProxyEndpoints_signPrefs, respond_error c unknown_error])"

definition createSeed :: "collaborators \<Rightarrow> request \<Rightarrow> unit prog" where
  "createSeed c req =
     try_catch
       (andThen (lift (JSON_parse c (body req))) (\<lambda>request.
        andThen (lift (get_prop request ''transaction_ids'')) (\<lambda>transaction_ids.
        andThen (lift (get_prop request ''data'')) (\<lambda>data.
        andThen (invoke ''client.buildSeed'' [transaction_ids, data]
                   (client_buildSeed c transaction_ids data)) (\<lambda>seed.
          steps [res_json c seed, next_ok])))))
       (\<lambda>e. steps [logger_Error jsonProxyEndpoints_createSeed, respond_error c unknown_error])"

text \<open>A handler run on a fresh response: its outcome and its effects.\<close>

definition run :: "unit prog \<Rightarrow> (exn + unit) \<times> effect list" where
  "run m = m []"

definition outcome :: "unit prog \<Rightarrow> exn + unit" where
  "outcome m = fst (run m)"

definition effects :: "unit prog \<Rightarrow> effect list" where
  "effects m = snd (run m)"

text \<open>How many times the handler asked the response object to send.\<close>

definition responses_attempted :: "effect list \<Rightarrow> nat" where
  "responses_attempted tr = length (filter is_response tr)"

section \<open>The routes the constructor registers\<close>

datatype http_method = GET | POST | DELETE | OPTIONS

datatype handler_name =
    this_restGetIdsAndPrefs
  | this_restWriteIdsAndPrefs
  | this_verify3PC
  | this_getNewId
  | this_restDeleteIdsAndPrefs
  | this_redirectReadIdsAndPrefs
  | this_redirectWriteIdsAndPrefs
  | this_redirectDeleteIdsAndPrefs
  | this_verifyOperatorReadResponse
  | this_signPreferences
  | this_createSeed

datatype stage =
    Cors
  | CheckOrigin
  | CheckReferer
  | CheckReturnUrl
  | StartSpan endpoint
  | Handler handler_name
  | HandleErrors endpoint
  | EndSpan endpoint

text \<open>
  The calls \<^verbatim>\<open>this.app.expressApp.get/post/delete/options(path, stage, ...)\<close> of the
  constructor, in its order, each with the stages in the order they are passed.
\<close>

definition registrations :: "(http_method \<times> endpoint \<times> stage list) list" where
  "registrations =
    [(GET, jsonProxyEndpoints_read,
        [Cors, CheckOrigin, StartSpan jsonProxyEndpoints_read,
         Handler this_restGetIdsAndPrefs,
         HandleErrors jsonProxyEndpoints_read, EndSpan jsonProxyEndpoints_read]),
     (POST, jsonProxyEndpoints_write,
        [Cors, CheckOrigin, StartSpan jsonProxyEndpoints_write,
         Handler this_restWriteIdsAndPrefs,
         HandleErrors jsonProxyEndpoints_write, EndSpan jsonProxyEndpoints_write]),
     (GET, jsonProxyEndpoints_verify3PC,
        [Cors, CheckOrigin, StartSpan jsonProxyEndpoints_verify3PC,
         Handler this_verify3PC,
         HandleErrors jsonProxyEndpoints_verify3PC, EndSpan jsonProxyEndpoints_verify3PC]),
     (GET, jsonProxyEndpoints_newId,
        [Cors, CheckOrigin, StartSpan jsonProxyEndpoints_newId,
         Handler this_getNewId,
         HandleErrors jsonProxyEndpoints_newId, EndSpan jsonProxyEndpoints_newId]),
     (OPTIONS, jsonProxyEndpoints_delete, [Cors]),
     (DELETE, jsonProxyEndpoints_delete,
        [Cors, CheckOrigin, StartSpan jsonProxyEndpoints_delete,
         Handler this_restDeleteIdsAndPrefs,
         HandleErrors jsonProxyEndpoints_delete, EndSpan jsonProxyEndpoints_delete]),
     (GET, redirectProxyEndpoints_read,
        [Cors, CheckReferer, CheckReturnUrl, StartSpan redirectProxyEndpoints_read,
         Handler this_redirectReadIdsAndPrefs,
         HandleErrors redirectProxyEndpoints_read, EndSpan redirectProxyEndpoints_read]),
     (GET, redirectProxyEndpoints_write,
        [Cors, CheckReferer, CheckReturnUrl, StartSpan redirectProxyEndpoints_write,
         Handler this_redirectWriteIdsAndPrefs,
         HandleErrors redirectProxyEndpoints_write, EndSpan redirectProxyEndpoints_write]),
     (GET, redirectProxyEndpoints_delete,
        [Cors, CheckReferer, CheckReturnUrl, StartSpan redirectProxyEndpoints_delete,
         Handler this_redirectDeleteIdsAndPrefs,
         HandleErrors redirectProxyEndpoints_delete, EndSpan redirectProxyEndpoints_delete]),
     (POST, jsonProxyEndpoints_verifyRead,
        [Cors, CheckOrigin, StartSpan jsonProxyEndpoints_verifyRead,
         Handler this_verifyOperatorReadResponse,
         HandleErrors jsonProxyEndpoints_verifyRead, EndSpan jsonProxyEndpoints_verifyRead]),
     (POST, jsonProxyEndpoints_signPrefs,
        [Cors, CheckOrigin, StartSpan jsonProxyEndpoints_signPrefs,
         Handler this_signPreferences,
         HandleErrors jsonProxyEndpoints_signPrefs, EndSpan jsonProxyEndpoints_signPrefs]),
     (POST, jsonProxyEndpoints_createSeed,
        [Cors, CheckOrigin, StartSpan jsonProxyEndpoints_createSeed,
         Handler this_createSeed,
         HandleErrors jsonProxyEndpoints_createSeed, EndSpan jsonProxyEndpoints_createSeed])]"

fun is_redirect_endpoint :: "endpoint \<Rightarrow> bool" where
  "is_redirect_endpoint redirectProxyEndpoints_read = True"
| "is_redirect_endpoint redirectProxyEndpoints_write = True"
| "is_redirect_endpoint redirectProxyEndpoints_delete = True"
| "is_redirect_endpoint _ = False"


text \<open>
  \<open>precedes a b xs\<close>: \<open>a\<close> stands in \<open>xs\<close> before the first \<open>b\<close>.
\<close>

definition precedes :: "'a \<Rightarrow> 'a \<Rightarrow> 'a list \<Rightarrow> bool" where
  "precedes a b xs = (a \<in> set (takeWhile (\<lambda>x. x \<noteq> b) xs))"

text \<open>
  Modelled from the spec: the middleware pipeline of the web framework, which section 6
  names an ordered handler-chain abstraction and section 9 an ordered list of stages,
  each able to short-circuit. The stages run in list order, and the next one runs only
  if the one before it passes control on; the result is the list of stages that ran.
\<close>

fun run_stages :: "(stage \<Rightarrow> bool) \<Rightarrow> stage list \<Rightarrow> stage list" where
  "run_stages passes [] = []"
| "run_stages passes (s # ss) = s # (if passes s then run_stages passes ss else [])"

text \<open>The validation stages stand before the handler \<open>h\<close> in the stages of a route to \<open>ep\<close>.\<close>

definition guarded :: "endpoint \<Rightarrow> handler_name \<Rightarrow> stage list \<Rightarrow> bool" where
  "guarded ep h stages =
     (if is_redirect_endpoint ep
      then precedes Cors (Handler h) stages \<and> precedes CheckReferer (Handler h) stages
           \<and> precedes CheckReturnUrl (Handler h) stages
      else precedes Cors (Handler h) stages \<and> precedes CheckOrigin (Handler h) stages)"

section \<open>The seed builder\<close>

text \<open>
  Modelled from the spec: \<^verbatim>\<open>buildSeed\<close> of the operator client, which is not among the
  files at hand. Section 4.7: it canonicalizes \<^verbatim>\<open>(transactionIds, data, now())\<close> via the
  Seed definition, signs with the caller's current signing key, and returns the signed
  hop; section 3 gives the hop the fields \<^verbatim>\<open>transactionIds\<close>, \<^verbatim>\<open>data\<close>, \<^verbatim>\<open>signature\<close>,
  \<^verbatim>\<open>signerHost\<close> and \<^verbatim>\<open>timestamp\<close>. The canonicalization and the signature engine are
  parameters; either may fail.
\<close>

record seed_signer =
  signerHost :: string
  now :: int
  canonicalize :: "jsval \<Rightarrow> jsval \<Rightarrow> int \<Rightarrow> exn + string"
  sign :: "string \<Rightarrow> exn + string"

definition buildSeed :: "seed_signer \<Rightarrow> jsval \<Rightarrow> jsval \<Rightarrow> exn + jsval" where
  "buildSeed k transactionIds data =
     (case canonicalize k transactionIds data (now k) of
        Inl e \<Rightarrow> Inl e
      | Inr bytes \<Rightarrow>
          (case sign k bytes of
             Inl e \<Rightarrow> Inl e
           | Inr signature \<Rightarrow>
               Inr (JObj [(''transactionIds'', transactionIds), (''data'', data),
                          (''signature'', JStr signature), (''signerHost'', JStr (signerHost k)),
                          (''timestamp'', JNum (now k))])))"

section \<open>Sample collaborators and requests\<close>

text \<open>
  Small stand-ins for the collaborators, used to evaluate the handlers on concrete
  requests: \<^verbatim>\<open>new URL\<close> accepts the strings that start with \<^verbatim>\<open>https://\<close>, \<^verbatim>\<open>JSON.parse\<close>
  knows three texts, the builders wrap their arguments, the URLs are fixed.
\<close>

definition sample_collaborators :: collaborators where
  "sample_collaborators =
     \<lparr> new_URL = (\<lambda>s. if take 8 s = ''https://'' then Inr s else Inl TypeError),
       JSON_parse = (\<lambda>v. if v = JStr ''{}'' then Inr (JObj [])
                          else if v = JStr ''[1]'' then Inr (JArr [JNum 1])
                          else if v = JStr ''null'' then Inr JNull
                          else Inl SyntaxError),
       getPayload = (\<lambda>req. Inr (body req)),
       fromDataToObject = (\<lambda>v. Inr v),
       client_getReadRestUrl = (\<lambda>req. Inr ''https://operator.example/read''),
       client_getReadRedirectUrl = (\<lambda>req returnUrl.
          case returnUrl of None \<Rightarrow> Inl TypeError
          | Some u \<Rightarrow> Inr (''https://operator.example/redirect/read?returnUrl='' @ u)),
       client_getDeleteRedirectUrl = (\<lambda>req returnUrl.
          case returnUrl of None \<Rightarrow> Inl TypeError
          | Some u \<Rightarrow> Inr (''https://operator.example/redirect/delete?returnUrl='' @ u)),
       client_verifyReadResponse = (\<lambda>response. Inr (response = JObj [(''signed'', JBool True)])),
       client_buildPreferences = (\<lambda>identifiers data.
          Inr (JObj [(''identifiers'', identifiers), (''data'', data)])),
       client_buildSeed = (\<lambda>transaction_ids data.
          Inr (JObj [(''transactionIds'', transaction_ids), (''data'', data)])),
       postIdsPrefs_buildRestRequest = (\<lambda>context payload.
          Inr (JObj [(''context'', context), (''body'', payload)])),
       postIdsPrefs_getRestUrl = Inr ''https://operator.example/write'',
       postIdsPrefs_buildRedirectRequest = (\<lambda>context payload.
          Inr (JObj [(''context'', context), (''body'', payload)])),
       postIdsPrefs_getRedirectUrl = (\<lambda>request. Inr ''https://operator.example/redirect/write''),
       get3PC_getRestUrl = Inr ''https://operator.example/3pc'',
       getNewId_buildRestRequest = (\<lambda>context. Inr (JObj [(''context'', context)])),
       getNewId_getRestUrl = (\<lambda>request. Inr ''https://operator.example/new-id''),
       deleteIdsPrefs_buildRestRequest = (\<lambda>context. Inr (JObj [(''context'', context)])),
       deleteIdsPrefs_getRestUrl = (\<lambda>request. Inr ''https://operator.example/delete''),
       headersSentThrows = True \<rparr>"

definition sample_signer :: seed_signer where
  "sample_signer =
     \<lparr> signerHost = ''vendor.example'', now = 1667383200,
       canonicalize = (\<lambda>transactionIds data t. Inr ''canonical-bytes''),
       sign = (\<lambda>bytes. Inr (''signed:'' @ bytes)) \<rparr>"

text \<open>A request with the given query parameters, a referer, an origin and no body.\<close>

definition sample_request :: "(string \<times> string) list \<Rightarrow> request" where
  "sample_request params =
     \<lparr> query = map_of params,
       headers = map_of [(''origin'', ''https://good.example''),
                         (''referer'', ''https://good.example/page'')],
       body = JUndefined \<rparr>"


section \<open>The requests a handler answers as failed\<close>





section \<open>Unfolding a handler\<close>

lemmas prog_defs =
  ret_def throw_def lift_def andThen_def try_catch_def emit_def invoke_def
  respond_def res_sendStatus_def res_send_def res_json_def res_status_def
  next_ok_def next_error_def logger_Error_def respond_error_def response_sent_def
  run_def outcome_def effects_def response_of_def

lemmas handler_defs =
  restGetIdsAndPrefs_def restWriteIdsAndPrefs_def verify3PC_def getNewId_def
  restDeleteIdsAndPrefs_def redirectReadIdsAndPrefs_def redirectWriteIdsAndPrefs_def
  redirectDeleteIdsAndPrefs_def verifyOperatorReadResponse_def signPreferences_def
  createSeed_def getReturnUrl_def getMessageObject_def getMandatoryQueryStringParam_def

lemmas sample_defs =
  sample_collaborators_def sample_request_def sample_signer_def
  proxyUriParams_returnUrl_def proxyUriParams_message_def

section \<open>Failure responses of the handlers\<close>




section \<open>Missing query parameters of the redirect endpoints\<close>

text \<open>
  C2, as amended. A request to the redirect read, write or delete endpoint that lacks
  \<^verbatim>\<open>returnUrl\<close> is answered with status 400. A request to the redirect write endpoint that
  lacks \<^verbatim>\<open>message\<close> is answered with status 400 when its \<^verbatim>\<open>returnUrl\<close> is absent, empty or
  accepted by \<^verbatim>\<open>new URL\<close>. The read and delete handlers do not read \<^verbatim>\<open>message\<close>.
\<close>

theorem redirect_missing_parameter_400:
  "(query req proxyUriParams_returnUrl = None \<longrightarrow>
      response_of (effects (redirectReadIdsAndPrefs c req)) = Some (400, StatusText 400)
      \<and> response_of (effects (redirectWriteIdsAndPrefs c req)) = Some (400, StatusText 400)
      \<and> response_of (effects (redirectDeleteIdsAndPrefs c req)) = Some (400, StatusText 400))
   \<and> (query req proxyUriParams_message = None
        \<and> (case query req proxyUriParams_returnUrl of
              None \<Rightarrow> True | Some s \<Rightarrow> s = [] \<or> (\<exists>u. new_URL c s = Inr u))
      \<longrightarrow> response_of (effects (redirectWriteIdsAndPrefs c req)) = Some (400, StatusText 400))"
  by (auto simp add: handler_defs prog_defs split: sum.splits option.splits)

text \<open>
  The theorem at work on a request with no query parameter at all, and on a write request
  that has a \<^verbatim>\<open>returnUrl\<close> and no \<^verbatim>\<open>message\<close>.
\<close>

theorem redirect_missing_parameter_400_witness:
  "query (sample_request []) proxyUriParams_returnUrl = None
   \<and> response_of (effects (redirectReadIdsAndPrefs sample_collaborators (sample_request [])))
        = Some (400, StatusText 400)
   \<and> response_of (effects (redirectWriteIdsAndPrefs sample_collaborators (sample_request [])))
        = Some (400, StatusText 400)
   \<and> response_of (effects (redirectDeleteIdsAndPrefs sample_collaborators (sample_request [])))
        = Some (400, StatusText 400)
   \<and> query (sample_request [(''returnUrl'', ''https://good.example/back'')]) proxyUriParams_message = None
   \<and> query (sample_request [(''returnUrl'', ''https://good.example/back'')]) proxyUriParams_returnUrl
        = Some ''https://good.example/back''
   \<and> new_URL sample_collaborators ''https://good.example/back'' = Inr ''https://good.example/back''
   \<and> response_of (effects (redirectWriteIdsAndPrefs sample_collaborators
          (sample_request [(''returnUrl'', ''https://good.example/back'')])))
        = Some (400, StatusText 400)"
proof -
  let ?r = "sample_request [(''returnUrl'', ''https://good.example/back'')]"
  have a: "query (sample_request []) proxyUriParams_returnUrl = None"
    by (simp add: sample_defs)
  have b: "query ?r proxyUriParams_message = None"
    and c: "query ?r proxyUriParams_returnUrl = Some ''https://good.example/back''"
    and d: "new_URL sample_collaborators ''https://good.example/back'' = Inr ''https://good.example/back''"
    by (simp_all add: sample_defs)
  from c d have e: "case query ?r proxyUriParams_returnUrl of None \<Rightarrow> True
      | Some s \<Rightarrow> s = [] \<or> (\<exists>u. new_URL sample_collaborators s = Inr u)"
    by simp
  from redirect_missing_parameter_400 [of "sample_request []" sample_collaborators] a
  have first: "response_of (effects (redirectReadIdsAndPrefs sample_collaborators (sample_request [])))
        = Some (400, StatusText 400)
   \<and> response_of (effects (redirectWriteIdsAndPrefs sample_collaborators (sample_request [])))
        = Some (400, StatusText 400)
   \<and> response_of (effects (redirectDeleteIdsAndPrefs sample_collaborators (sample_request [])))
        = Some (400, StatusText 400)"
    by blast
  from redirect_missing_parameter_400 [of ?r sample_collaborators] b e
  have second: "response_of (effects (redirectWriteIdsAndPrefs sample_collaborators ?r))
        = Some (400, StatusText 400)"
    by blast
  from a b c d first second show ?thesis by blast
qed

text \<open>
  C2 as it was stated fails on a redirect read request that has its \<^verbatim>\<open>returnUrl\<close> and no
  \<^verbatim>\<open>message\<close>: the handler never asks for \<^verbatim>\<open>message\<close>, and with an operator client that
  returns a URL the response is that URL under status 200.
\<close>

theorem read_without_message_counterexample:
  "query (sample_request [(''returnUrl'', ''https://good.example/back'')]) proxyUriParams_message = None
   \<and> response_of (effects (redirectReadIdsAndPrefs sample_collaborators
         (sample_request [(''returnUrl'', ''https://good.example/back'')])))
      = Some (200, Text ''https://operator.example/redirect/read?returnUrl=https://good.example/back'')"
  by (simp add: handler_defs prog_defs sample_defs)

section \<open>The order of the stages of a route\<close>

text \<open>
  C3. In every route the constructor registers, the stages before the business handler
  include \<^verbatim>\<open>cors\<close> and \<^verbatim>\<open>checkOrigin\<close> on a JSON endpoint, and \<^verbatim>\<open>cors\<close>, \<^verbatim>\<open>checkReferer\<close> and
  \<^verbatim>\<open>checkReturnUrl\<close> on a redirect endpoint; and however the stages pass control on, a
  run of the route that reaches the handler has run these stages before it.
\<close>

theorem validation_before_handler:
  "\<forall>(m, ep, stages) \<in> set registrations. \<forall>h. Handler h \<in> set stages \<longrightarrow>
      guarded ep h stages
      \<and> (\<forall>passes. Handler h \<in> set (run_stages passes stages)
            \<longrightarrow> guarded ep h (run_stages passes stages))"
  by (simp add: registrations_def guarded_def precedes_def)

text \<open>The theorem at work on the route of the redirect write endpoint, every stage passing on.\<close>

theorem validation_before_handler_witness:
  "(GET, redirectProxyEndpoints_write,
      [Cors, CheckReferer, CheckReturnUrl, StartSpan redirectProxyEndpoints_write,
       Handler this_redirectWriteIdsAndPrefs,
       HandleErrors redirectProxyEndpoints_write, EndSpan redirectProxyEndpoints_write])
     \<in> set registrations
   \<and> guarded redirectProxyEndpoints_write this_redirectWriteIdsAndPrefs
       [Cors, CheckReferer, CheckReturnUrl, StartSpan redirectProxyEndpoints_write,
        Handler this_redirectWriteIdsAndPrefs,
        HandleErrors redirectProxyEndpoints_write, EndSpan redirectProxyEndpoints_write]
   \<and> run_stages (\<lambda>s. True)
       [Cors, CheckReferer, CheckReturnUrl, StartSpan redirectProxyEndpoints_write,
        Handler this_redirectWriteIdsAndPrefs,
        HandleErrors redirectProxyEndpoints_write, EndSpan redirectProxyEndpoints_write]
      = [Cors, CheckReferer, CheckReturnUrl, StartSpan redirectProxyEndpoints_write,
        Handler this_redirectWriteIdsAndPrefs,
        HandleErrors redirectProxyEndpoints_write, EndSpan redirectProxyEndpoints_write]
   \<and> guarded redirectProxyEndpoints_write this_redirectWriteIdsAndPrefs
       (run_stages (\<lambda>s. True)
         [Cors, CheckReferer, CheckReturnUrl, StartSpan redirectProxyEndpoints_write,
          Handler this_redirectWriteIdsAndPrefs,
          HandleErrors redirectProxyEndpoints_write, EndSpan redirectProxyEndpoints_write])"
proof -
  let ?stages = "[Cors, CheckReferer, CheckReturnUrl, StartSpan redirectProxyEndpoints_write,
       Handler this_redirectWriteIdsAndPrefs,
       HandleErrors redirectProxyEndpoints_write, EndSpan redirectProxyEndpoints_write]"
  have reg: "(GET, redirectProxyEndpoints_write, ?stages) \<in> set registrations"
    by (simp add: registrations_def)
  have ran: "run_stages (\<lambda>s. True) ?stages = ?stages"
    by simp
  from bspec [OF validation_before_handler reg]
  have "guarded redirectProxyEndpoints_write this_redirectWriteIdsAndPrefs ?stages
        \<and> guarded redirectProxyEndpoints_write this_redirectWriteIdsAndPrefs
             (run_stages (\<lambda>s. True) ?stages)"
    by simp
  with reg ran show ?thesis by simp
qed


section \<open>Verifying the operator's read response\<close>

text \<open>
  C4. When the parsed body of a verify-operator-read-response request has no (or a
  falsy) \<^verbatim>\<open>response\<close> field and carries an \<^verbatim>\<open>error\<close> object, the handler answers with
  status 400 and a JSON object whose \<^verbatim>\<open>details\<close> is the \<^verbatim>\<open>message\<close> of the operator's error,
  unchanged, and whose \<^verbatim>\<open>type\<close> is the member \<^verbatim>\<open>UNKNOWN_ERROR\<close> of \<^verbatim>\<open>OperatorErrorType\<close>, the
  enumeration of the errors that originate at the operator; it hands the same object to
  \<^verbatim>\<open>next\<close> and returns.
\<close>

theorem operator_error_relayed:
  assumes "fromDataToObject c (body req) = Inr message"
    and "get_prop message ''response'' = Inr response" and "\<not> truthy response"
    and "get_prop message ''error'' = Inr message_error"
    and "get_prop message_error ''message'' = Inr details"
  shows "run (verifyOperatorReadResponse c req) =
           (Inr (),
            [LoggerError jsonProxyEndpoints_verifyRead, Status 400,
             Json (JObj [(''type'', JErrorType OperatorErrorType_UNKNOWN_ERROR),
                         (''details'', details)]),
             NextError (JObj [(''type'', JErrorType OperatorErrorType_UNKNOWN_ERROR),
                              (''details'', details)])])
         \<and> response_of (effects (verifyOperatorReadResponse c req)) =
             Some (400, JsonBody (JObj [(''type'', JErrorType OperatorErrorType_UNKNOWN_ERROR),
                                        (''details'', details)]))"
  using assms
  by (simp add: verifyOperatorReadResponse_def prog_defs)

text \<open>
  The theorem at work on the envelope \<^verbatim>\<open>{ error: { message: 'operator is down' } }\<close>.
\<close>

theorem operator_error_relayed_witness:
  "fromDataToObject sample_collaborators
      (body ((sample_request [])\<lparr>body := JObj [(''error'', JObj [(''message'', JStr ''operator is down'')])]\<rparr>))
     = Inr (JObj [(''error'', JObj [(''message'', JStr ''operator is down'')])])
   \<and> get_prop (JObj [(''error'', JObj [(''message'', JStr ''operator is down'')])]) ''response''
       = Inr JUndefined
   \<and> \<not> truthy JUndefined
   \<and> get_prop (JObj [(''error'', JObj [(''message'', JStr ''operator is down'')])]) ''error''
       = Inr (JObj [(''message'', JStr ''operator is down'')])
   \<and> get_prop (JObj [(''message'', JStr ''operator is down'')]) ''message'' = Inr (JStr ''operator is down'')
   \<and> response_of (effects (verifyOperatorReadResponse sample_collaborators
         ((sample_request [])\<lparr>body := JObj [(''error'', JObj [(''message'', JStr ''operator is down'')])]\<rparr>)))
       = Some (400, JsonBody (JObj [(''type'', JErrorType OperatorErrorType_UNKNOWN_ERROR),
                                    (''details'', JStr ''operator is down'')]))"
proof -
  let ?envelope = "JObj [(''error'', JObj [(''message'', JStr ''operator is down'')])]"
  let ?req = "(sample_request [])\<lparr>body := ?envelope\<rparr>"
  have a: "fromDataToObject sample_collaborators (body ?req) = Inr ?envelope"
    by (simp add: sample_defs)
  have b: "get_prop ?envelope ''response'' = Inr JUndefined"
    and c: "\<not> truthy JUndefined"
    and d: "get_prop ?envelope ''error'' = Inr (JObj [(''message'', JStr ''operator is down'')])"
    and e: "get_prop (JObj [(''message'', JStr ''operator is down'')]) ''message''
              = Inr (JStr ''operator is down'')"
    by simp_all
  from operator_error_relayed [OF a b c d e] a b c d e show ?thesis
    by blast
qed

text \<open>
  C5. When the parsed body carries a \<^verbatim>\<open>response\<close> and \<^verbatim>\<open>verifyReadResponse\<close> returns, the
  handler answers 400 with the error of type \<^verbatim>\<open>VERIFICATION_FAILED\<close> if the verification is
  false, and with the operator's response itself as the JSON body, under status 200, if
  it is true; the type \<^verbatim>\<open>VERIFICATION_FAILED\<close> is not the type of the error the catch blocks
  send.
\<close>

theorem verification_outcome:
  assumes "fromDataToObject c (body req) = Inr message"
    and "get_prop message ''response'' = Inr response" and "truthy response"
    and "client_verifyReadResponse c response = Inr verification"
  shows "response_of (effects (verifyOperatorReadResponse c req)) =
           (if verification then Some (200, JsonBody response)
            else Some (400, JsonBody verification_failed))
         \<and> get_prop verification_failed ''type''
             = Inr (JErrorType ClientNodeErrorType_VERIFICATION_FAILED)
         \<and> get_prop verification_failed ''type'' \<noteq> get_prop unknown_error ''type''"
  using assms
  by (simp add: verifyOperatorReadResponse_def prog_defs verification_failed_def unknown_error_def)

text \<open>
  The theorem at work on a response the sample verifier rejects and on one it accepts.
\<close>

theorem verification_outcome_witness:
  "response_of (effects (verifyOperatorReadResponse sample_collaborators
       ((sample_request [])\<lparr>body := JObj [(''response'', JObj [(''signed'', JBool False)])]\<rparr>)))
     = Some (400, JsonBody verification_failed)
   \<and> response_of (effects (verifyOperatorReadResponse sample_collaborators
       ((sample_request [])\<lparr>body := JObj [(''response'', JObj [(''signed'', JBool True)])]\<rparr>)))
     = Some (200, JsonBody (JObj [(''signed'', JBool True)]))
   \<and> client_verifyReadResponse sample_collaborators (JObj [(''signed'', JBool False)]) = Inr False
   \<and> client_verifyReadResponse sample_collaborators (JObj [(''signed'', JBool True)]) = Inr True"
proof -
  let ?forged = "JObj [(''signed'', JBool False)]" and ?signed = "JObj [(''signed'', JBool True)]"
  let ?req = "\<lambda>response. (sample_request [])\<lparr>body := JObj [(''response'', response)]\<rparr>"
  have parsed: "fromDataToObject sample_collaborators (body (?req r)) = Inr (JObj [(''response'', r)])" for r
    by (simp add: sample_defs)
  have field: "get_prop (JObj [(''response'', r)]) ''response'' = Inr r" for r
    by simp
  have no: "client_verifyReadResponse sample_collaborators ?forged = Inr False"
    and yes: "client_verifyReadResponse sample_collaborators ?signed = Inr True"
    by (simp_all add: sample_defs)
  have t: "truthy ?forged" "truthy ?signed" by simp_all
  from verification_outcome [OF parsed field t(1) no]
  have rejected: "response_of (effects (verifyOperatorReadResponse sample_collaborators (?req ?forged)))
      = Some (400, JsonBody verification_failed)"
    by simp
  from verification_outcome [OF parsed field t(2) yes]
  have accepted: "response_of (effects (verifyOperatorReadResponse sample_collaborators (?req ?signed)))
      = Some (200, JsonBody ?signed)"
    by simp
  from rejected accepted no yes show ?thesis by blast
qed

section \<open>Writing identifiers and preferences\<close>

text \<open>
  C6. When \<^verbatim>\<open>getPayload\<close>, \<^verbatim>\<open>buildRestRequest\<close> and \<^verbatim>\<open>getRestUrl\<close> return, the JSON write
  handler calls \<^verbatim>\<open>buildRestRequest\<close> with the context \<^verbatim>\<open>{ origin }\<close> holding the request's
  Origin header and with the payload, and its response is the JSON object with exactly
  the two fields \<^verbatim>\<open>payload\<close>, the signed request, and \<^verbatim>\<open>url\<close>, the URL that \<^verbatim>\<open>getRestUrl\<close>
  returned; it then calls \<^verbatim>\<open>next()\<close>.
\<close>

theorem restWrite_signs_origin:
  assumes "getPayload c req = Inr unsignedRequest"
    and "postIdsPrefs_buildRestRequest c (JObj [(''origin'', header req ''origin'')]) unsignedRequest
           = Inr signedPayload"
    and "postIdsPrefs_getRestUrl c = Inr url"
  shows "run (restWriteIdsAndPrefs c req) =
           (Inr (),
            [Invoke ''postIdsPrefsRequestBuilder.buildRestRequest''
               [JObj [(''origin'', header req ''origin'')], unsignedRequest],
             Invoke ''postIdsPrefsRequestBuilder.getRestUrl'' [],
             Json (JObj [(''payload'', signedPayload), (''url'', JStr url)]),
             Next])
         \<and> response_of (effects (restWriteIdsAndPrefs c req)) =
             Some (200, JsonBody (JObj [(''payload'', signedPayload), (''url'', JStr url)]))"
  using assms
  by (simp add: restWriteIdsAndPrefs_def prog_defs)

text \<open>
  The theorem at work: identifiers \<^verbatim>\<open>["id1"]\<close> and preferences \<^verbatim>\<open>{optIn: true}\<close> written from
  the origin \<^verbatim>\<open>https://good.example\<close>.
\<close>

theorem restWrite_signs_origin_witness:
  "getPayload sample_collaborators
      ((sample_request [])\<lparr>body := JObj [(''identifiers'', JArr [JStr ''id1'']),
                                          (''preferences'', JObj [(''optIn'', JBool True)])]\<rparr>)
     = Inr (JObj [(''identifiers'', JArr [JStr ''id1'']), (''preferences'', JObj [(''optIn'', JBool True)])])
   \<and> header ((sample_request [])\<lparr>body := JObj [(''identifiers'', JArr [JStr ''id1'']),
                                          (''preferences'', JObj [(''optIn'', JBool True)])]\<rparr>) ''origin''
     = JStr ''https://good.example''
   \<and> postIdsPrefs_getRestUrl sample_collaborators = Inr ''https://operator.example/write''
   \<and> response_of (effects (restWriteIdsAndPrefs sample_collaborators
        ((sample_request [])\<lparr>body := JObj [(''identifiers'', JArr [JStr ''id1'']),
                                            (''preferences'', JObj [(''optIn'', JBool True)])]\<rparr>)))
     = Some (200, JsonBody (JObj
         [(''payload'',
           JObj [(''context'', JObj [(''origin'', JStr ''https://good.example'')]),
                 (''body'', JObj [(''identifiers'', JArr [JStr ''id1'']),
                                  (''preferences'', JObj [(''optIn'', JBool True)])])]),
          (''url'', JStr ''https://operator.example/write'')]))"
proof -
  let ?payload = "JObj [(''identifiers'', JArr [JStr ''id1'']), (''preferences'', JObj [(''optIn'', JBool True)])]"
  let ?req = "(sample_request [])\<lparr>body := ?payload\<rparr>"
  have a: "getPayload sample_collaborators ?req = Inr ?payload"
    by (simp add: sample_defs)
  have o: "header ?req ''origin'' = JStr ''https://good.example''"
    by (simp add: header_def sample_defs)
  have b: "postIdsPrefs_buildRestRequest sample_collaborators (JObj [(''origin'', header ?req ''origin'')]) ?payload
             = Inr (JObj [(''context'', JObj [(''origin'', JStr ''https://good.example'')]), (''body'', ?payload)])"
    by (simp add: o) (simp add: sample_defs)
  have u: "postIdsPrefs_getRestUrl sample_collaborators = Inr ''https://operator.example/write''"
    by (simp add: sample_defs)
  from restWrite_signs_origin [OF a b u] a o u show ?thesis
    by blast
qed

text \<open>
  C7. When the redirect write request has a \<^verbatim>\<open>returnUrl\<close> that \<^verbatim>\<open>new URL\<close> accepts and a
  \<^verbatim>\<open>message\<close> that parses to a truthy value, and the builder returns, the handler calls
  \<^verbatim>\<open>buildRedirectRequest\<close> with a context of exactly the two fields \<^verbatim>\<open>returnUrl\<close>, the string
  form of the URL built from the \<^verbatim>\<open>returnUrl\<close> parameter, and \<^verbatim>\<open>referer\<close>, the request's
  Referer header; the response body is the URL that \<^verbatim>\<open>getRedirectUrl\<close> returns for the signed
  message.
\<close>

theorem redirectWrite_context:
  assumes "query req proxyUriParams_returnUrl = Some s" and "s \<noteq> []"
    and "new_URL c s = Inr returnUrl"
    and "query req proxyUriParams_message = Some m" and "m \<noteq> []"
    and "JSON_parse c (JStr m) = Inr input" and "truthy input"
    and "postIdsPrefs_buildRedirectRequest c
           (JObj [(''returnUrl'', JStr returnUrl), (''referer'', header req ''referer'')]) input
         = Inr postIdsPrefsRequestJson"
    and "postIdsPrefs_getRedirectUrl c postIdsPrefsRequestJson = Inr url"
  shows "run (redirectWriteIdsAndPrefs c req) =
           (Inr (),
            [Invoke ''postIdsPrefsRequestBuilder.buildRedirectRequest''
               [JObj [(''returnUrl'', JStr returnUrl), (''referer'', header req ''referer'')], input],
             Invoke ''postIdsPrefsRequestBuilder.getRedirectUrl'' [postIdsPrefsRequestJson],
             Send url, Next])
         \<and> response_of (effects (redirectWriteIdsAndPrefs c req)) = Some (200, Text url)"
  using assms
  by (simp add: redirectWriteIdsAndPrefs_def getReturnUrl_def getMessageObject_def
      getMandatoryQueryStringParam_def prog_defs)

text \<open>
  The theorem at work on a request with \<^verbatim>\<open>returnUrl=https://good.example/back\<close> and
  \<^verbatim>\<open>message=[1]\<close>.
\<close>

theorem redirectWrite_context_witness:
  "run (redirectWriteIdsAndPrefs sample_collaborators
      (sample_request [(''returnUrl'', ''https://good.example/back''), (''message'', ''[1]'')])) =
     (Inr (),
      [Invoke ''postIdsPrefsRequestBuilder.buildRedirectRequest''
         [JObj [(''returnUrl'', JStr ''https://good.example/back''),
                (''referer'', JStr ''https://good.example/page'')], JArr [JNum 1]],
       Invoke ''postIdsPrefsRequestBuilder.getRedirectUrl''
         [JObj [(''context'', JObj [(''returnUrl'', JStr ''https://good.example/back''),
                                    (''referer'', JStr ''https://good.example/page'')]),
                (''body'', JArr [JNum 1])]],
       Send ''https://operator.example/redirect/write'', Next])
   \<and> response_of (effects (redirectWriteIdsAndPrefs sample_collaborators
        (sample_request [(''returnUrl'', ''https://good.example/back''), (''message'', ''[1]'')])))
      = Some (200, Text ''https://operator.example/redirect/write'')"
proof -
  let ?req = "sample_request [(''returnUrl'', ''https://good.example/back''), (''message'', ''[1]'')]"
  let ?ctx = "JObj [(''returnUrl'', JStr ''https://good.example/back''),
                    (''referer'', JStr ''https://good.example/page'')]"
  have r: "query ?req proxyUriParams_returnUrl = Some ''https://good.example/back''"
    and m: "query ?req proxyUriParams_message = Some ''[1]''"
    by (simp_all add: sample_defs)
  have ne: "''https://good.example/back'' \<noteq> []" "''[1]'' \<noteq> []" by simp_all
  have u: "new_URL sample_collaborators ''https://good.example/back'' = Inr ''https://good.example/back''"
    and p: "JSON_parse sample_collaborators (JStr ''[1]'') = Inr (JArr [JNum 1])"
    by (simp_all add: sample_defs)
  have t: "truthy (JArr [JNum 1])" by simp
  have h: "header ?req ''referer'' = JStr ''https://good.example/page''"
    by (simp add: header_def sample_defs)
  have b: "postIdsPrefs_buildRedirectRequest sample_collaborators
             (JObj [(''returnUrl'', JStr ''https://good.example/back''), (''referer'', header ?req ''referer'')])
             (JArr [JNum 1])
           = Inr (JObj [(''context'', ?ctx), (''body'', JArr [JNum 1])])"
    by (simp add: h) (simp add: sample_defs)
  have g: "postIdsPrefs_getRedirectUrl sample_collaborators (JObj [(''context'', ?ctx), (''body'', JArr [JNum 1])])
           = Inr ''https://operator.example/redirect/write''"
    by (simp add: sample_defs)
  from redirectWrite_context [OF r ne(1) u m ne(2) p t b g] show ?thesis
    by (simp add: h)
qed

section \<open>Creating a seed\<close>

text \<open>
  C8. When the body of a create-seed request parses to \<^verbatim>\<open>{transaction_ids, data}\<close> and
  \<^verbatim>\<open>buildSeed\<close> returns, the handler calls \<^verbatim>\<open>buildSeed(transaction_ids, data)\<close> and its JSON
  response is the seed that call returned; with the seed builder of the specification,
  the \<^verbatim>\<open>transactionIds\<close> of that seed are the request's \<^verbatim>\<open>transaction_ids\<close>, unchanged.
\<close>

theorem createSeed_returns_seed:
  assumes "JSON_parse c (body req) = Inr request"
    and "get_prop request ''transaction_ids'' = Inr transaction_ids"
    and "get_prop request ''data'' = Inr data"
    and "client_buildSeed c = buildSeed k"
    and "buildSeed k transaction_ids data = Inr seed"
  shows "run (createSeed c req) =
           (Inr (), [Invoke ''client.buildSeed'' [transaction_ids, data], Json seed, Next])
       \<and> response_of (effects (createSeed c req)) = Some (200, JsonBody seed)
       \<and> get_prop seed ''transactionIds'' = Inr transaction_ids"
  using assms
  by (auto simp add: createSeed_def prog_defs buildSeed_def split: sum.splits)

text \<open>
  The theorem at work on the transaction ids \<^verbatim>\<open>t1, t2\<close> and the data \<^verbatim>\<open>{note: x}\<close>; the body
  text stands in for their JSON.
\<close>

theorem createSeed_returns_seed_witness:
  "response_of (effects (createSeed
       (sample_collaborators
          \<lparr>JSON_parse := \<lambda>v. if v = JStr ''{transaction_ids:[t1,t2],data:{note:x}}''
                               then Inr (JObj [(''transaction_ids'', JArr [JStr ''t1'', JStr ''t2'']),
                                               (''data'', JObj [(''note'', JStr ''x'')])])
                               else Inl SyntaxError,
            client_buildSeed := buildSeed sample_signer\<rparr>)
       ((sample_request [])\<lparr>body := JStr ''{transaction_ids:[t1,t2],data:{note:x}}''\<rparr>)))
     = Some (200, JsonBody (JObj [(''transactionIds'', JArr [JStr ''t1'', JStr ''t2'']),
                                  (''data'', JObj [(''note'', JStr ''x'')]),
                                  (''signature'', JStr ''signed:canonical-bytes''),
                                  (''signerHost'', JStr ''vendor.example''),
                                  (''timestamp'', JNum 1667383200)]))
   \<and> get_prop (JObj [(''transactionIds'', JArr [JStr ''t1'', JStr ''t2'']),
                     (''data'', JObj [(''note'', JStr ''x'')]),
                     (''signature'', JStr ''signed:canonical-bytes''),
                     (''signerHost'', JStr ''vendor.example''),
                     (''timestamp'', JNum 1667383200)]) ''transactionIds''
     = Inr (JArr [JStr ''t1'', JStr ''t2''])"
proof -
  let ?parsed = "JObj [(''transaction_ids'', JArr [JStr ''t1'', JStr ''t2'']),
                       (''data'', JObj [(''note'', JStr ''x'')])]"
  let ?c = "sample_collaborators
          \<lparr>JSON_parse := \<lambda>v. if v = JStr ''{transaction_ids:[t1,t2],data:{note:x}}''
                               then Inr ?parsed else Inl SyntaxError,
            client_buildSeed := buildSeed sample_signer\<rparr>"
  let ?req = "(sample_request [])\<lparr>body := JStr ''{transaction_ids:[t1,t2],data:{note:x}}''\<rparr>"
  let ?seed = "JObj [(''transactionIds'', JArr [JStr ''t1'', JStr ''t2'']),
                     (''data'', JObj [(''note'', JStr ''x'')]),
                     (''signature'', JStr ''signed:canonical-bytes''),
                     (''signerHost'', JStr ''vendor.example''),
                     (''timestamp'', JNum 1667383200)]"
  have a: "JSON_parse ?c (body ?req) = Inr ?parsed"
    by (simp add: sample_defs)
  have b: "get_prop ?parsed ''transaction_ids'' = Inr (JArr [JStr ''t1'', JStr ''t2''])"
    and d: "get_prop ?parsed ''data'' = Inr (JObj [(''note'', JStr ''x'')])"
    by simp_all
  have k: "client_buildSeed ?c = buildSeed sample_signer"
    by simp
  have s: "buildSeed sample_signer (JArr [JStr ''t1'', JStr ''t2'']) (JObj [(''note'', JStr ''x'')]) = Inr ?seed"
    by (simp add: buildSeed_def sample_defs)
  from createSeed_returns_seed [OF a b d k s] show ?thesis
    by blast
qed

section \<open>Exceptions outside the try blocks\<close>

text \<open>
  C9. Three inputs make a handler throw outside its \<^verbatim>\<open>try\<close> block, so that the exception
  leaves the handler and no JSON error is sent: a \<^verbatim>\<open>returnUrl\<close> that \<^verbatim>\<open>new URL\<close> rejects, on
  each of the three redirect handlers (nothing at all is sent); a \<^verbatim>\<open>message\<close> that
  \<^verbatim>\<open>JSON.parse\<close> rejects, on the redirect write handler (at most the bare 400 of a missing
  \<^verbatim>\<open>returnUrl\<close> was sent before); and a verify-operator-read-response body that is an object
  with neither a \<^verbatim>\<open>response\<close> nor an \<^verbatim>\<open>error\<close> field (a TypeError, after the log call).
\<close>

theorem exceptions_escape:
  "(query req proxyUriParams_returnUrl = Some s \<and> s \<noteq> [] \<and> new_URL c s = Inl e1 \<longrightarrow>
      run (redirectReadIdsAndPrefs c req) = (Inl e1, [])
      \<and> run (redirectWriteIdsAndPrefs c req) = (Inl e1, [])
      \<and> run (redirectDeleteIdsAndPrefs c req) = (Inl e1, []))
   \<and> (query req proxyUriParams_message = Some m \<and> m \<noteq> [] \<and> JSON_parse c (JStr m) = Inl e2 \<longrightarrow>
      isl (outcome (redirectWriteIdsAndPrefs c req))
      \<and> (effects (redirectWriteIdsAndPrefs c req) = []
          \<or> effects (redirectWriteIdsAndPrefs c req) = [SendStatus 400]))
   \<and> (fromDataToObject c (body req) = Inr (JObj kvs) \<and> map_of kvs ''response'' = None
        \<and> map_of kvs ''error'' = None \<longrightarrow>
      run (verifyOperatorReadResponse c req)
        = (Inl TypeError, [LoggerError jsonProxyEndpoints_verifyRead]))"
  by (auto simp add: handler_defs prog_defs split: sum.splits option.splits)

text \<open>
  The theorem at work on \<^verbatim>\<open>returnUrl=nonsense\<close>, on \<^verbatim>\<open>message={oops\<close> and on the body \<^verbatim>\<open>{}\<close>.
\<close>

theorem exceptions_escape_witness:
  "run (redirectReadIdsAndPrefs sample_collaborators (sample_request [(''returnUrl'', ''nonsense'')]))
     = (Inl TypeError, [])
   \<and> run (redirectWriteIdsAndPrefs sample_collaborators (sample_request [(''returnUrl'', ''nonsense'')]))
     = (Inl TypeError, [])
   \<and> run (redirectDeleteIdsAndPrefs sample_collaborators (sample_request [(''returnUrl'', ''nonsense'')]))
     = (Inl TypeError, [])
   \<and> JSON_parse sample_collaborators (JStr ''{oops'') = Inl SyntaxError
   \<and> isl (outcome (redirectWriteIdsAndPrefs sample_collaborators
        (sample_request [(''returnUrl'', ''https://good.example/back''), (''message'', ''{oops'')])))
   \<and> run (verifyOperatorReadResponse sample_collaborators ((sample_request [])\<lparr>body := JObj []\<rparr>))
     = (Inl TypeError, [LoggerError jsonProxyEndpoints_verifyRead])"
proof -
  let ?bad_url = "sample_request [(''returnUrl'', ''nonsense'')]"
  let ?bad_json = "sample_request [(''returnUrl'', ''https://good.example/back''), (''message'', ''{oops'')]"
  let ?empty = "(sample_request [])\<lparr>body := JObj []\<rparr>"
  have a: "query ?bad_url proxyUriParams_returnUrl = Some ''nonsense'' \<and> ''nonsense'' \<noteq> []
           \<and> new_URL sample_collaborators ''nonsense'' = Inl TypeError"
    by (simp add: sample_defs)
  have p: "JSON_parse sample_collaborators (JStr ''{oops'') = Inl SyntaxError"
    by (simp add: sample_defs)
  have b: "query ?bad_json proxyUriParams_message = Some ''{oops'' \<and> ''{oops'' \<noteq> []
           \<and> JSON_parse sample_collaborators (JStr ''{oops'') = Inl SyntaxError"
    by (simp add: sample_defs)
  have d: "fromDataToObject sample_collaborators (body ?empty) = Inr (JObj [])
           \<and> map_of ([] :: (string \<times> jsval) list) ''response'' = None
           \<and> map_of ([] :: (string \<times> jsval) list) ''error'' = None"
    by (simp add: sample_defs)
  from exceptions_escape [of ?bad_url "''nonsense''" sample_collaborators TypeError] a
  have first: "run (redirectReadIdsAndPrefs sample_collaborators ?bad_url) = (Inl TypeError, [])
      \<and> run (redirectWriteIdsAndPrefs sample_collaborators ?bad_url) = (Inl TypeError, [])
      \<and> run (redirectDeleteIdsAndPrefs sample_collaborators ?bad_url) = (Inl TypeError, [])"
    by blast
  from exceptions_escape [of ?bad_json _ sample_collaborators _ "''{oops''" SyntaxError] b
  have second: "isl (outcome (redirectWriteIdsAndPrefs sample_collaborators ?bad_json))"
    by blast
  from exceptions_escape [of ?empty _ sample_collaborators _ _ _ "[]"] d
  have third: "run (verifyOperatorReadResponse sample_collaborators ?empty)
      = (Inl TypeError, [LoggerError jsonProxyEndpoints_verifyRead])"
    by blast
  from first second third p show ?thesis by blast
qed

section \<open>After the rejection of a missing returnUrl\<close>

text \<open>
  C10 does not hold of the handlers. When \<^verbatim>\<open>returnUrl\<close> is missing, the redirect read and
  delete handlers, having sent the 400, go on into their \<^verbatim>\<open>try\<close> block: the next thing they
  do is call \<^verbatim>\<open>getReadRedirectUrl\<close> (\<^verbatim>\<open>getDeleteRedirectUrl\<close>) with an undefined return URL,
  and whatever that call does they ask the response object to send a second time.
\<close>

theorem handler_goes_on_after_400:
  assumes "query req proxyUriParams_returnUrl = None"
  shows "take 2 (effects (redirectReadIdsAndPrefs c req)) =
           [SendStatus 400, Invoke ''client.getReadRedirectUrl'' [JUndefined]]
         \<and> 2 \<le> responses_attempted (effects (redirectReadIdsAndPrefs c req))
         \<and> take 2 (effects (redirectDeleteIdsAndPrefs c req)) =
           [SendStatus 400, Invoke ''client.getDeleteRedirectUrl'' [JUndefined]]
         \<and> 2 \<le> responses_attempted (effects (redirectDeleteIdsAndPrefs c req))"
  using assms
  by (simp add: redirectReadIdsAndPrefs_def redirectDeleteIdsAndPrefs_def getReturnUrl_def
      getMandatoryQueryStringParam_def responses_attempted_def prog_defs split: sum.splits)

text \<open>
  The theorem at work on a request with no query parameter: the effects of the read
  handler, in full.
\<close>

theorem handler_goes_on_after_400_witness:
  "query (sample_request []) proxyUriParams_returnUrl = None
   \<and> effects (redirectReadIdsAndPrefs sample_collaborators (sample_request [])) =
       [SendStatus 400, Invoke ''client.getReadRedirectUrl'' [JUndefined],
        LoggerError redirectProxyEndpoints_read, Status 400, Json unknown_error]
   \<and> 2 \<le> responses_attempted (effects (redirectReadIdsAndPrefs sample_collaborators (sample_request [])))
   \<and> 2 \<le> responses_attempted (effects (redirectDeleteIdsAndPrefs sample_collaborators (sample_request [])))"
proof -
  have a: "query (sample_request []) proxyUriParams_returnUrl = None"
    by (simp add: sample_defs)
  have t: "effects (redirectReadIdsAndPrefs sample_collaborators (sample_request [])) =
       [SendStatus 400, Invoke ''client.getReadRedirectUrl'' [JUndefined],
        LoggerError redirectProxyEndpoints_read, Status 400, Json unknown_error]"
    by (simp add: handler_defs prog_defs sample_defs)
  from handler_goes_on_after_400 [OF a, of sample_collaborators] a t show ?thesis
    by blast
qed

end
